theory Spec2Isabelle
  imports Main "HOL-Library.Sublist"
begin

section \<open>Python values and exceptions\<close>

text \<open>
  The program is \<^verbatim>\<open>.scanner/scan_and_review.py\<close>. It handles values decoded from JSON
  (the scanner's results file, the body of the text-generation response), so the model
  has a datatype of such values. A \<open>JObj\<close> holds the items of a Python dict (its keys are
  distinct, lookup is \<open>map_of\<close>). JSON numbers with a fraction or an exponent (Python
  floats) are not part of the model. Strings are byte strings holding the UTF-8 form of
  the Python text.
\<close>

datatype json =
    JNull
  | JBool bool
  | JInt int
  | JStr string
  | JList "json list"
  | JObj "(string \<times> json) list"

text \<open>
  The exceptions that can travel through the program. \<open>RequestException m\<close> stands for
  every subclass of \<^verbatim>\<open>requests.RequestException\<close>, with \<open>m\<close> the text of \<^verbatim>\<open>str(e)\<close>;
  \<open>KeyError k\<close> carries the missing key.
\<close>

datatype error =
    RequestException string
  | KeyError string
  | IndexError
  | TypeError
  | AttributeError
  | ValueError
  | FileNotFoundError
  | PermissionError
  | IsADirectoryError
  | UnicodeDecodeError
  | UnicodeEncodeError
  | JSONDecodeError
  | CalledProcessError

fun and_then :: "error + 'a \<Rightarrow> ('a \<Rightarrow> error + 'b) \<Rightarrow> error + 'b" where
  "and_then (Inl e) f = Inl e"
| "and_then (Inr v) f = f v"

text \<open>Truth value of a Python object, as \<^verbatim>\<open>not x\<close> and \<^verbatim>\<open>if x\<close> test it.\<close>

fun truthy :: "json \<Rightarrow> bool" where
  "truthy JNull = False"
| "truthy (JBool b) = b"
| "truthy (JInt i) = (i \<noteq> 0)"
| "truthy (JStr s) = (s \<noteq> [])"
| "truthy (JList xs) = (xs \<noteq> [])"
| "truthy (JObj kvs) = (kvs \<noteq> [])"

text \<open>Truth value of a \<^verbatim>\<open>str\<close>-or-\<^verbatim>\<open>None\<close>, such as \<^verbatim>\<open>os.environ.get(name)\<close>.\<close>

fun truthy_str :: "string option \<Rightarrow> bool" where
  "truthy_str None = False"
| "truthy_str (Some s) = (s \<noteq> [])"

text \<open>\<^verbatim>\<open>x.get(key, default)\<close>: only a dict has the method.\<close>

fun dict_get :: "json \<Rightarrow> string \<Rightarrow> json \<Rightarrow> error + json" where
  "dict_get (JObj kvs) k d = Inr (case map_of kvs k of None \<Rightarrow> d | Some v \<Rightarrow> v)"
| "dict_get _ k d = Inl AttributeError"

text \<open>\<^verbatim>\<open>x[key]\<close> with a string key.\<close>

fun getitem :: "json \<Rightarrow> string \<Rightarrow> error + json" where
  "getitem (JObj kvs) k = (case map_of kvs k of None \<Rightarrow> Inl (KeyError k) | Some v \<Rightarrow> Inr v)"
| "getitem _ k = Inl TypeError"

definition is_continuation :: "char \<Rightarrow> bool" where
  "is_continuation c = (128 \<le> (of_char c :: nat) \<and> (of_char c :: nat) < 192)"

text \<open>\<^verbatim>\<open>x[0]\<close>: the first item of a list, the first character of a string.\<close>

fun getitem0 :: "json \<Rightarrow> error + json" where
  "getitem0 (JList []) = Inl IndexError"
| "getitem0 (JList (x # xs)) = Inr x"
| "getitem0 (JStr []) = Inl IndexError"
| "getitem0 (JStr (c # cs)) = Inr (JStr (c # takeWhile is_continuation cs))"
| "getitem0 (JObj kvs) = Inl (KeyError ''0'')"
| "getitem0 _ = Inl TypeError"

text \<open>\<^verbatim>\<open>len(x)\<close>: characters of a string, items of a list, keys of a dict.\<close>

fun py_len :: "json \<Rightarrow> error + nat" where
  "py_len (JStr s) = Inr (length (filter (\<lambda>c. \<not> is_continuation c) s))"
| "py_len (JList xs) = Inr (length xs)"
| "py_len (JObj kvs) = Inr (length kvs)"
| "py_len _ = Inl TypeError"

fun isinstance_list :: "json \<Rightarrow> bool" where
  "isinstance_list (JList xs) = True"
| "isinstance_list _ = False"

text \<open>The integer a value stands for in arithmetic and comparison (\<^verbatim>\<open>bool\<close> is an \<^verbatim>\<open>int\<close>).\<close>

fun as_int :: "json \<Rightarrow> error + int" where
  "as_int (JInt i) = Inr i"
| "as_int (JBool b) = Inr (if b then 1 else 0)"
| "as_int _ = Inl TypeError"

text \<open>Decimal text of an integer, as \<^verbatim>\<open>str\<close> gives it.\<close>

fun str_nat :: "nat \<Rightarrow> string" where
  "str_nat n = (if n < 10 then [''0123456789'' ! n]
                else str_nat (n div 10) @ [''0123456789'' ! (n mod 10)])"

declare str_nat.simps [simp del]

definition str_int :: "int \<Rightarrow> string" where
  "str_int i = (if i < 0 then CHR ''-'' # str_nat (nat (- i)) else str_nat (nat i))"

text \<open>
  A slice \<^verbatim>\<open>xs[start:end]\<close> with integer bounds: a negative bound counts from the end
  of the list, and both bounds are then cut to \<open>0 .. len(xs)\<close>.
\<close>

definition slice_index :: "nat \<Rightarrow> int \<Rightarrow> nat" where
  "slice_index n i = (if i < 0 then nat (max 0 (i + int n)) else min (nat i) n)"

definition py_slice :: "'a list \<Rightarrow> int \<Rightarrow> int \<Rightarrow> 'a list" where
  "py_slice xs start end =
     (let lo = slice_index (length xs) start; hi = slice_index (length xs) end
      in take (hi - lo) (drop lo xs))"

text \<open>\<^verbatim>\<open>sep.join(xs)\<close>.\<close>

fun join :: "string \<Rightarrow> string list \<Rightarrow> string" where
  "join sep [] = []"
| "join sep [x] = x"
| "join sep (x # y # ys) = x @ sep @ join sep (y # ys)"

section \<open>The world outside the program\<close>

text \<open>
  A response of the \<^verbatim>\<open>requests\<close> library: its status code, the message that
  \<^verbatim>\<open>raise_for_status\<close> puts into the \<^verbatim>\<open>HTTPError\<close> it raises for this response, and what
  \<^verbatim>\<open>response.json()\<close> does (the decoded body, or the exception it raises).
\<close>

datatype http_response =
  HttpResponse (status_code: nat) (http_error_msg: string) (json_result: "error + json")

text \<open>
  Everything the program reads from outside is a field of the world:
  \<^item> \<open>environ name\<close> is \<^verbatim>\<open>os.environ.get(name)\<close>;
  \<^item> \<open>git_diff ref\<close> is \<^verbatim>\<open>subprocess.run(["git", "diff", ref], ..., check=True).stdout\<close>,
    or the exception the call raises;
  \<^item> \<open>load_json path\<close> is \<^verbatim>\<open>json.load\<close> on the opened file, or the exception raised by
    \<^verbatim>\<open>open\<close> or by \<^verbatim>\<open>json.load\<close>;
  \<^item> \<open>readlines path\<close> is \<^verbatim>\<open>open(path, 'r')\<close> followed by \<^verbatim>\<open>f.readlines()\<close>, or the
    exception raised;
  \<^item> \<open>openai_post n headers data\<close> is the \<open>n\<close>-th \<^verbatim>\<open>requests.post\<close> to the text-generation
    service and \<open>github_post url headers data\<close> the one to the comment endpoint: \<open>Inl m\<close>
    when the call raises (every exception \<^verbatim>\<open>requests\<close> raises is a \<^verbatim>\<open>RequestException\<close>;
    \<open>m\<close> is its text), \<open>Inr r\<close> when it returns the response \<open>r\<close>;
  \<^item> \<open>repr v\<close> is the text Python prints for a list or a dict;
  \<^item> \<open>stdout_print text\<close> is \<^verbatim>\<open>print(text)\<close> at the end of \<^verbatim>\<open>main\<close>: nothing, or the
    exception raised (\<^verbatim>\<open>UnicodeEncodeError\<close> when the encoding of standard output has no
    form for a character of the text). The progress lines and diagnostics printed
    elsewhere are left out.
\<close>

record world =
  environ :: "string \<Rightarrow> string option"
  git_diff :: "string \<Rightarrow> error + string"
  load_json :: "string \<Rightarrow> error + json"
  readlines :: "json \<Rightarrow> error + string list"
  openai_post :: "nat \<Rightarrow> (string \<times> string) list \<Rightarrow> json \<Rightarrow> string + http_response"
  github_post :: "string \<Rightarrow> (string \<times> string) list \<Rightarrow> json \<Rightarrow> string + http_response"
  repr :: "json \<Rightarrow> string"
  stdout_print :: "string \<Rightarrow> error + unit"

text \<open>\<^verbatim>\<open>str(x)\<close>, which an f-string applies to each field.\<close>

fun py_str :: "world \<Rightarrow> json \<Rightarrow> string" where
  "py_str w JNull = ''None''"
| "py_str w (JBool b) = (if b then ''True'' else ''False'')"
| "py_str w (JInt i) = str_int i"
| "py_str w (JStr s) = s"
| "py_str w v = repr w v"

fun str_opt :: "string option \<Rightarrow> string" where
  "str_opt None = ''None''"
| "str_opt (Some s) = s"

text \<open>\<^verbatim>\<open>response.raise_for_status()\<close>.\<close>

definition raise_for_status :: "http_response \<Rightarrow> error + unit" where
  "raise_for_status r =
     (if 400 \<le> status_code r \<and> status_code r < 600
      then Inl (RequestException (http_error_msg r)) else Inr ())"

section \<open>Configuration\<close>

definition OPENAI_API_KEY :: "world \<Rightarrow> string option" where
  "OPENAI_API_KEY w = environ w ''OPENAI_API_KEY''"

definition OPENAI_API_URL :: string where
  "OPENAI_API_URL = ''https://api.openai.com/v1/chat/completions''"

definition OPENAI_MODEL :: string where
  "OPENAI_MODEL = ''gpt-4o-mini''"

definition GITHUB_TOKEN :: "world \<Rightarrow> string option" where
  "GITHUB_TOKEN w = environ w ''GITHUB_TOKEN''"

definition REPO_NAME :: "world \<Rightarrow> string option" where
  "REPO_NAME w = environ w ''REPO_NAME''"

definition PR_NUMBER :: "world \<Rightarrow> string option" where
  "PR_NUMBER w = environ w ''PR_NUMBER''"

definition BASE_REF :: "world \<Rightarrow> string option" where
  "BASE_REF w = environ w ''BASE_REF''"

definition GITHUB_API_URL :: "world \<Rightarrow> string" where
  "GITHUB_API_URL w =
     ''https://api.github.com/repos/'' @ str_opt (REPO_NAME w) @ ''/issues/''
       @ str_opt (PR_NUMBER w) @ ''/comments''"

definition SCANNER_RESULTS_FILE :: string where
  "SCANNER_RESULTS_FILE = ''semgrep_results.json''"

section \<open>The text-generation call\<close>

text \<open>\<^verbatim>\<open>body["choices"][0]["message"]["content"]\<close> on the decoded body.\<close>

definition response_content :: "json \<Rightarrow> error + json" where
  "response_content body =
     and_then (getitem body ''choices'') (\<lambda>choices.
     and_then (getitem0 choices) (\<lambda>choice.
     and_then (getitem choice ''message'') (\<lambda>message.
       getitem message ''content'')))"

text \<open>
  The body of the \<^verbatim>\<open>try\<close> block of \<^verbatim>\<open>call_openai\<close>: post, \<^verbatim>\<open>raise_for_status\<close>, then
  \<^verbatim>\<open>response.json()["choices"][0]["message"]["content"]\<close>.
\<close>

definition openai_request :: "world \<Rightarrow> nat \<Rightarrow> string \<Rightarrow> string \<Rightarrow> error + json" where
  "openai_request w n system_prompt user_prompt =
     (let headers = [(''Authorization'', ''Bearer '' @ str_opt (OPENAI_API_KEY w)),
                     (''Content-Type'', ''application/json'')];
          data = JObj [(''model'', JStr OPENAI_MODEL),
                       (''messages'', JList
                          [JObj [(''role'', JStr ''system''), (''content'', JStr system_prompt)],
                           JObj [(''role'', JStr ''user''), (''content'', JStr user_prompt)]])]
      in case openai_post w n headers data of
           Inl m \<Rightarrow> Inl (RequestException m)
         | Inr response \<Rightarrow>
             and_then (raise_for_status response) (\<lambda>_.
             and_then (json_result response) response_content))"

text \<open>
  \<^verbatim>\<open>call_openai\<close>; \<open>n\<close> numbers the calls of one run. Only a \<^verbatim>\<open>RequestException\<close> is
  caught; any other exception leaves the function.
\<close>

definition call_openai :: "world \<Rightarrow> nat \<Rightarrow> string \<Rightarrow> string \<Rightarrow> error + json" where
  "call_openai w n system_prompt user_prompt =
     (if \<not> truthy_str (OPENAI_API_KEY w) then Inr (JStr ''Error: OPENAI_API_KEY not set.'')
      else case openai_request w n system_prompt user_prompt of
             Inl (RequestException m) \<Rightarrow> Inr (JStr (''Error connecting to AI: '' @ m))
           | Inl e \<Rightarrow> Inl e
           | Inr content \<Rightarrow> Inr content)"

section \<open>Git and file helpers\<close>

text \<open>\<^verbatim>\<open>get_pr_diff\<close>: the diff text, or \<^verbatim>\<open>None\<close> when git exits with an error.\<close>

definition get_pr_diff :: "world \<Rightarrow> error + string option" where
  "get_pr_diff w =
     (case git_diff w (''origin/'' @ str_opt (BASE_REF w)) of
        Inr stdout \<Rightarrow> Inr (Some stdout)
      | Inl CalledProcessError \<Rightarrow> Inr None
      | Inl e \<Rightarrow> Inl e)"

text \<open>\<^verbatim>\<open>load_scanner_results\<close>: the decoded document, or \<^verbatim>\<open>None\<close> (here \<open>JNull\<close>).\<close>

definition load_scanner_results :: "world \<Rightarrow> string \<Rightarrow> error + json" where
  "load_scanner_results w filepath =
     (case load_json w filepath of
        Inr doc \<Rightarrow> Inr doc
      | Inl FileNotFoundError \<Rightarrow> Inr JNull
      | Inl JSONDecodeError \<Rightarrow> Inr JNull
      | Inl e \<Rightarrow> Inl e)"

text \<open>\<^verbatim>\<open>get_code_snippet\<close>. The arithmetic on the line numbers is inside the \<^verbatim>\<open>try\<close>.\<close>

definition get_code_snippet :: "world \<Rightarrow> json \<Rightarrow> json \<Rightarrow> json \<Rightarrow> error + string" where
  "get_code_snippet w file_path start_line end_line =
     (case readlines w file_path of
        Inl FileNotFoundError \<Rightarrow> Inr (''Code snippet for '' @ py_str w file_path @ '' not found.'')
      | Inl e \<Rightarrow> Inl e
      | Inr lines \<Rightarrow>
          and_then (as_int start_line) (\<lambda>s.
          and_then (as_int end_line) (\<lambda>e.
            let start = max 0 (s - 1);
                end = min (int (length lines)) e
            in Inr (concat (py_slice lines start end)))))"

section \<open>Analysis functions\<close>

definition summary_system_prompt :: string where
  "summary_system_prompt =
     ''You are an expert code reviewer. ''
     @ ''Review the following git diff and provide a concise, high-level summary of the changes. ''
     @ ''Focus on the 'why' of the change, not just listing the files. Use bullet points.''"

definition get_ai_summary :: "world \<Rightarrow> string \<Rightarrow> error + json" where
  "get_ai_summary w diff_content =
     call_openai w 0 summary_system_prompt
       (''Git Diff:\<newline>\<newline>'' @ diff_content)"

definition fix_system_prompt :: string where
  "fix_system_prompt =
     ''You are an expert security developer and code reviewer. ''
     @ ''A static analysis tool has found the following issue. ''
     @ ''Your task is to:\<newline>''
     @ ''1. Briefly explain the *risk* of this issue in simple terms.\<newline>''
     @ ''2. Provide a clear, actionable code suggestion to fix it.\<newline>''
     @ ''3. Format your response clearly with 'Risk:' and 'Suggestion:' labels.''"

text \<open>The header \<^verbatim>\<open>File: `path` (Lines start-end)\<close> shared by the prompt and the suggestion.\<close>

definition file_lines :: "world \<Rightarrow> json \<Rightarrow> json \<Rightarrow> json \<Rightarrow> string" where
  "file_lines w path start_line end_line =
     ''`'' @ py_str w path @ ''` (Lines '' @ py_str w start_line @ ''-''
       @ py_str w end_line @ '')''"

definition fix_user_prompt :: "world \<Rightarrow> json \<Rightarrow> json \<Rightarrow> json \<Rightarrow> json \<Rightarrow> string \<Rightarrow> string" where
  "fix_user_prompt w path start_line end_line message code_snippet =
     ''**File:** '' @ file_lines w path start_line end_line @ ''\<newline>\<newline>''
     @ ''**Issue:** '' @ py_str w message @ ''\<newline>\<newline>''
     @ ''**Vulnerable Code Snippet:**\<newline>```\<newline>'' @ code_snippet @ ''\<newline>```''"

text \<open>
  The four reads at the head of the loop body: \<^verbatim>\<open>finding['path']\<close>,
  \<^verbatim>\<open>finding['start']['line']\<close>, \<^verbatim>\<open>finding['end']['line']\<close>, \<^verbatim>\<open>finding['extra']['message']\<close>.
\<close>

definition finding_fields :: "json \<Rightarrow> error + (json \<times> json \<times> json \<times> json)" where
  "finding_fields finding =
     and_then (getitem finding ''path'') (\<lambda>path.
     and_then (and_then (getitem finding ''start'') (\<lambda>s. getitem s ''line'')) (\<lambda>start_line.
     and_then (and_then (getitem finding ''end'') (\<lambda>e. getitem e ''line'')) (\<lambda>end_line.
     and_then (and_then (getitem finding ''extra'') (\<lambda>x. getitem x ''message'')) (\<lambda>message.
       Inr (path, start_line, end_line, message)))))"

text \<open>The text put in front of a suggestion.\<close>

definition suggestion_header :: "world \<Rightarrow> json \<Rightarrow> json \<Rightarrow> json \<Rightarrow> string" where
  "suggestion_header w path start_line end_line =
     ''**File: '' @ file_lines w path start_line end_line @ ''**\<newline>\<newline>''"

text \<open>The body of the \<^verbatim>\<open>for\<close> loop of \<^verbatim>\<open>get_ai_fixes\<close>: the suggestion for one finding.\<close>

definition fix_for_finding :: "world \<Rightarrow> nat \<Rightarrow> json \<Rightarrow> error + string" where
  "fix_for_finding w n finding =
     and_then (finding_fields finding) (\<lambda>(path, start_line, end_line, message).
     and_then (get_code_snippet w path start_line end_line) (\<lambda>code_snippet.
     and_then (call_openai w n fix_system_prompt
                 (fix_user_prompt w path start_line end_line message code_snippet))
       (\<lambda>fix_suggestion.
          Inr (suggestion_header w path start_line end_line @ py_str w fix_suggestion))))"

text \<open>The loop itself: \<open>ai_fixes\<close> grows by one suggestion per finding, in order.\<close>

fun fixes_loop :: "world \<Rightarrow> nat \<Rightarrow> json list \<Rightarrow> string list \<Rightarrow> error + string list" where
  "fixes_loop w n [] ai_fixes = Inr ai_fixes"
| "fixes_loop w n (finding # rest) ai_fixes =
     (case fix_for_finding w n finding of
        Inl e \<Rightarrow> Inl e
      | Inr full_suggestion \<Rightarrow> fixes_loop w (Suc n) rest (ai_fixes @ [full_suggestion]))"

text \<open>
  \<^verbatim>\<open>get_ai_fixes\<close>. The first line prints \<^verbatim>\<open>len(scanner_results.get('results', []))\<close>,
  before the check that \<^verbatim>\<open>results\<close> is a list. The calls are numbered from \<open>n\<close>.
\<close>

definition get_ai_fixes :: "world \<Rightarrow> nat \<Rightarrow> json \<Rightarrow> error + string list" where
  "get_ai_fixes w n scanner_results =
     and_then (dict_get scanner_results ''results'' (JList [])) (\<lambda>shown.
     and_then (py_len shown) (\<lambda>_.
     and_then (dict_get scanner_results ''results'' JNull) (\<lambda>findings.
       if \<not> truthy findings \<or> \<not> isinstance_list findings then Inr []
       else (case findings of JList fs \<Rightarrow> fixes_loop w n fs [] | _ \<Rightarrow> Inr []))))"

section \<open>Orchestration\<close>

definition report_header :: string where
  "report_header =
     ''## '' @ [CHR 0xF0, CHR 0x9F, CHR 0xA4, CHR 0x96] @ '' CodeScan-AI Review\<newline>\<newline>''
     @ ''### '' @ [CHR 0xF0, CHR 0x9F, CHR 0x93, CHR 0x9D] @ '' PR Summary\<newline>''"

definition anomalies_section :: string where
  "anomalies_section =
     ''### '' @ [CHR 0xF0, CHR 0x9F, CHR 0x9A, CHR 0xA8] @ '' Anomalies Detected\<newline>\<newline>''
     @ ''I found the following issues that should be addressed:\<newline>\<newline>''"

definition no_anomalies_section :: string where
  "no_anomalies_section =
     ''### '' @ [CHR 0xE2, CHR 0x9C, CHR 0x85] @ '' No Anomalies Found\<newline>\<newline>''
     @ ''My automated scan found no critical issues. Great job!''"

definition format_final_comment :: "world \<Rightarrow> json \<Rightarrow> string list \<Rightarrow> string" where
  "format_final_comment w summary fixes =
     (let body = report_header;
          body = body @ py_str w summary @ ''\<newline>\<newline>'';
          body = body @ ''---\<newline>\<newline>''
      in if fixes \<noteq> []
         then body @ anomalies_section @ join ''\<newline>\<newline>---\<newline>\<newline>'' fixes
         else body @ no_anomalies_section)"

text \<open>
  \<^verbatim>\<open>post_to_pr\<close> returns nothing; the model returns what it reports: the comment was
  posted, or delivery failed with the text of the exception.
\<close>

datatype delivery = Posted | DeliveryFailed string

definition post_to_pr :: "world \<Rightarrow> string \<Rightarrow> delivery" where
  "post_to_pr w comment_body =
     (let headers = [(''Authorization'', ''Bearer '' @ str_opt (GITHUB_TOKEN w)),
                     (''Accept'', ''application/vnd.github.v3+json''),
                     (''Content-Type'', ''application/json'')];
          data = JObj [(''body'', JStr comment_body)]
      in case github_post w (GITHUB_API_URL w) headers data of
           Inl m \<Rightarrow> DeliveryFailed m
         | Inr response \<Rightarrow>
             (case raise_for_status response of
                Inl (RequestException m) \<Rightarrow> DeliveryFailed m
              | _ \<Rightarrow> Posted))"

text \<open>
  How a run of \<^verbatim>\<open>main\<close> ends: \<open>Fatal d\<close> prints the diagnostic \<open>d\<close> and calls
  \<^verbatim>\<open>sys.exit(1)\<close>; \<open>Uncaught e\<close> is an exception that nothing catches; \<open>Completed c d\<close>
  returns after the comment \<open>c\<close> was printed and handed to \<^verbatim>\<open>post_to_pr\<close>, with outcome \<open>d\<close>.
\<close>

datatype outcome = Fatal string | Uncaught error | Completed string delivery

text \<open>The three \<^verbatim>\<open>print\<close> calls of \<^verbatim>\<open>main\<close> that show the comment before it is posted.\<close>

definition print_final_comment :: "world \<Rightarrow> string \<Rightarrow> error + unit" where
  "print_final_comment w final_comment =
     and_then (stdout_print w ''\<newline>--- Final Comment ---'') (\<lambda>_.
     and_then (stdout_print w final_comment) (\<lambda>_.
       stdout_print w ''---------------------\<newline>''))"

definition config_present :: "world \<Rightarrow> bool" where
  "config_present w =
     list_all truthy_str [OPENAI_API_KEY w, GITHUB_TOKEN w, REPO_NAME w, PR_NUMBER w, BASE_REF w]"

definition main :: "world \<Rightarrow> outcome" where
  "main w =
     (if \<not> config_present w then Fatal ''Error: Missing one or more environment variables.''
      else (case get_pr_diff w of
        Inl e \<Rightarrow> Uncaught e
      | Inr diff \<Rightarrow>
          (if \<not> truthy_str diff then Fatal ''Could not get PR diff. Exiting.''
           else (case load_scanner_results w SCANNER_RESULTS_FILE of
             Inl e \<Rightarrow> Uncaught e
           | Inr scanner_results \<Rightarrow>
               (if \<not> truthy scanner_results
                then Fatal ''Could not load scanner results. Exiting.''
                else (case get_ai_summary w (str_opt diff) of
                  Inl e \<Rightarrow> Uncaught e
                | Inr ai_summary \<Rightarrow>
                    (case get_ai_fixes w 1 scanner_results of
                       Inl e \<Rightarrow> Uncaught e
                     | Inr ai_fixes \<Rightarrow>
                         (let final_comment = format_final_comment w ai_summary ai_fixes
                          in (case print_final_comment w final_comment of
                                Inl e \<Rightarrow> Uncaught e
                              | Inr _ \<Rightarrow>
                                  Completed final_comment
                                    (post_to_pr w final_comment))))))))))"

text \<open>
  The exit status of the process: the argument of \<^verbatim>\<open>sys.exit\<close>, 1 when the interpreter
  stops on an uncaught exception, 0 when \<^verbatim>\<open>main\<close> returns.
\<close>

fun exit_code :: "outcome \<Rightarrow> nat" where
  "exit_code (Fatal d) = 1"
| "exit_code (Uncaught e) = 1"
| "exit_code (Completed c d) = 0"

section \<open>The snippet contract in the words of the specification\<close>

text \<open>
  The lines numbered \<open>start\<close> to \<open>end\<close>, counted from 1 and both included, where a start
  below 1 counts as 1 and an end beyond the number of lines counts as the number of lines.
\<close>

definition clamped_lines :: "string list \<Rightarrow> int \<Rightarrow> int \<Rightarrow> string list" where
  "clamped_lines lines start end =
     map (\<lambda>i. lines ! nat (i - 1)) [max 1 start .. min (int (length lines)) end]"

section \<open>Sample worlds\<close>

text \<open>
  A run with all five settings, a one-line diff, a results file without findings, one
  source file of four lines, both services answering, and a standard output that takes
  every text.
\<close>

definition sample_file :: "string list" where
  "sample_file = [''import os\<newline>'', ''\<newline>'', ''password = 1\<newline>'', ''print(password)\<newline>'']"

definition chat_body :: "string \<Rightarrow> json" where
  "chat_body content =
     JObj [(''choices'', JList [JObj [(''index'', JInt 0),
        (''message'', JObj [(''role'', JStr ''assistant''), (''content'', JStr content)])]])]"

definition sample_world :: world where
  "sample_world =
     \<lparr> environ = map_of [(''OPENAI_API_KEY'', ''sk-1''), (''GITHUB_TOKEN'', ''ghp-1''),
                          (''REPO_NAME'', ''octo/demo''), (''PR_NUMBER'', ''7''),
                          (''BASE_REF'', ''main'')],
       git_diff = (\<lambda>ref. Inr ''+print('hi')''),
       load_json = (\<lambda>path. Inr (JObj [(''results'', JList [])])),
       readlines = (\<lambda>path. if path = JStr ''a.py'' then Inr sample_file
                             else Inl FileNotFoundError),
       openai_post = (\<lambda>n headers data. Inr (HttpResponse 200 [] (Inr (chat_body ''ok'')))),
       github_post = (\<lambda>url headers data. Inr (HttpResponse 201 [] (Inr JNull))),
       repr = (\<lambda>v. ''[...]''),
       stdout_print = (\<lambda>text. Inr ()) \<rparr>"

text \<open>The same, with a file that exists and that the process may not read.\<close>

definition locked_world :: world where
  "locked_world =
     sample_world \<lparr> readlines := (\<lambda>path. if path = JStr ''.env'' then Inl PermissionError
                                          else readlines sample_world path) \<rparr>"

text \<open>The same, with a results file that is not JSON.\<close>

definition malformed_world :: world where
  "malformed_world = sample_world \<lparr> load_json := (\<lambda>path. Inl JSONDecodeError) \<rparr>"

text \<open>The same, with a results file that is a JSON object without a \<^verbatim>\<open>results\<close> field.\<close>

definition no_results_world :: world where
  "no_results_world =
     sample_world \<lparr> load_json :=
       (\<lambda>path. Inr (JObj [(''version'', JStr ''1.50.0''), (''errors'', JList [])])) \<rparr>"

text \<open>Two findings as the scanner writes them: one in the sample file, one in a file that is gone.\<close>

definition sample_finding :: "string \<Rightarrow> json" where
  "sample_finding path =
     JObj [(''check_id'', JStr ''hardcoded-secret''),
           (''path'', JStr path),
           (''start'', JObj [(''line'', JInt 3), (''col'', JInt 1)]),
           (''end'', JObj [(''line'', JInt 4), (''col'', JInt 16)]),
           (''extra'', JObj [(''message'', JStr ''hardcoded secret''),
                             (''severity'', JStr ''ERROR'')])]"

definition findings_world :: world where
  "findings_world =
     sample_world \<lparr> load_json :=
       (\<lambda>path. Inr (JObj [(''results'',
                  JList [sample_finding ''a.py'', sample_finding ''gone.py''])])) \<rparr>"

text \<open>One finding in a file whose bytes are not valid UTF-8 text.\<close>

definition legacy_world :: world where
  "legacy_world =
     sample_world \<lparr>
       load_json := (\<lambda>path. Inr (JObj [(''results'', JList [sample_finding ''legacy.py''])])),
       readlines := (\<lambda>path. if path = JStr ''legacy.py'' then Inl UnicodeDecodeError
                             else readlines sample_world path) \<rparr>"

text \<open>The text-generation service answers 200 with a JSON body that has no \<^verbatim>\<open>choices\<close>.\<close>

definition garbled_world :: world where
  "garbled_world =
     sample_world \<lparr> openai_post :=
       (\<lambda>n headers data. Inr (HttpResponse 200 [] (Inr (JObj [(''status'', JStr ''queued'')])))) \<rparr>"

text \<open>The first text-generation call (the summary) times out; the later ones answer.\<close>

definition timeout_world :: world where
  "timeout_world =
     findings_world \<lparr> openai_post :=
       (\<lambda>n headers data. if n = 0 then Inl ''Read timed out.''
                          else Inr (HttpResponse 200 [] (Inr (chat_body ''Risk: x'')))) \<rparr>"

text \<open>The comment endpoint refuses the comment.\<close>

definition rejected_world :: world where
  "rejected_world =
     sample_world \<lparr> github_post :=
       (\<lambda>url headers data. Inr (HttpResponse 403 ''403 Client Error: Forbidden'' (Inr JNull))) \<rparr>"

text \<open>No settings at all; git exits with an error; git prints nothing.\<close>

definition unconfigured_world :: world where
  "unconfigured_world = sample_world \<lparr> environ := (\<lambda>name. None) \<rparr>"

definition failed_diff_world :: world where
  "failed_diff_world = sample_world \<lparr> git_diff := (\<lambda>ref. Inl CalledProcessError) \<rparr>"

definition empty_diff_world :: world where
  "empty_diff_world = sample_world \<lparr> git_diff := (\<lambda>ref. Inr []) \<rparr>"

text \<open>Standard output takes ASCII text only.\<close>

definition ascii_stdout_world :: world where
  "ascii_stdout_world =
     sample_world \<lparr> stdout_print :=
       (\<lambda>text. if list_all (\<lambda>c. (of_char c :: nat) < 128) text then Inr ()
                else Inl UnicodeEncodeError) \<rparr>"

text \<open>A results file whose only record is the given one.\<close>

definition one_record_world :: "json \<Rightarrow> world" where
  "one_record_world record =
     sample_world \<lparr> load_json := (\<lambda>path. Inr (JObj [(''results'', JList [record])])) \<rparr>"

text \<open>The sample finding with one of the four fields taken out.\<close>

definition without_path :: json where
  "without_path =
     JObj [(''start'', JObj [(''line'', JInt 3)]), (''end'', JObj [(''line'', JInt 4)]),
           (''extra'', JObj [(''message'', JStr ''hardcoded secret'')])]"

definition without_start_line :: json where
  "without_start_line =
     JObj [(''path'', JStr ''a.py''), (''start'', JObj [(''col'', JInt 1)]),
           (''end'', JObj [(''line'', JInt 4)]),
           (''extra'', JObj [(''message'', JStr ''hardcoded secret'')])]"

definition without_end_line :: json where
  "without_end_line =
     JObj [(''path'', JStr ''a.py''), (''start'', JObj [(''line'', JInt 3)]),
           (''extra'', JObj [(''message'', JStr ''hardcoded secret'')])]"

definition without_message :: json where
  "without_message =
     JObj [(''path'', JStr ''a.py''), (''start'', JObj [(''line'', JInt 3)]),
           (''end'', JObj [(''line'', JInt 4)]), (''extra'', JObj [])]"

section \<open>Conditions used in the statements\<close>







section \<open>Slices\<close>

lemma take_drop_upto:
  assumes "lo \<le> hi" "hi \<le> length xs"
  shows "take (hi - lo) (drop lo xs) = map (\<lambda>i. xs ! nat (i - 1)) [int lo + 1 .. int hi]"
proof (rule nth_equalityI)
  show "length (take (hi - lo) (drop lo xs))
      = length (map (\<lambda>i. xs ! nat (i - 1)) [int lo + 1 .. int hi])"
    using assms by simp
next
  fix k assume "k < length (take (hi - lo) (drop lo xs))"
  then have k: "k < hi - lo" by simp
  then have "[int lo + 1 .. int hi] ! k = int lo + 1 + int k"
    by (intro nth_upto) simp
  with k assms show "take (hi - lo) (drop lo xs) ! k
      = map (\<lambda>i. xs ! nat (i - 1)) [int lo + 1 .. int hi] ! k"
    by (simp add: nat_add_distrib)
qed

lemma py_slice_clamped:
  assumes "0 \<le> e"
  shows "py_slice xs (max 0 (s - 1)) (min (int (length xs)) e) = clamped_lines xs s e"
proof (cases "max 1 s \<le> min (int (length xs)) e")
  case True
  define lo where "lo = nat (max 0 (s - 1))"
  define hi where "hi = nat (min (int (length xs)) e)"
  have lo: "int lo + 1 = max 1 s" and hi: "int hi = min (int (length xs)) e"
    using assms by (auto simp: lo_def hi_def)
  have le: "lo \<le> hi" "hi \<le> length xs" using True lo hi by linarith+
  have "slice_index (length xs) (max 0 (s - 1)) = lo"
    using le by (simp add: slice_index_def lo_def)
  moreover have "slice_index (length xs) (min (int (length xs)) e) = hi"
    using assms le by (simp add: slice_index_def hi_def)
  ultimately have "py_slice xs (max 0 (s - 1)) (min (int (length xs)) e)
      = take (hi - lo) (drop lo xs)"
    by (simp add: py_slice_def)
  also have "\<dots> = map (\<lambda>i. xs ! nat (i - 1)) [int lo + 1 .. int hi]"
    using le by (rule take_drop_upto)
  finally show ?thesis by (simp add: clamped_lines_def lo hi)
next
  case False
  then have "min (int (length xs)) e < max 1 s" by linarith
  then have "[max 1 s .. min (int (length xs)) e] = []" by (rule upto_empty)
  then have "clamped_lines xs s e = []" unfolding clamped_lines_def by simp
  moreover have "slice_index (length xs) (min (int (length xs)) e)
      \<le> slice_index (length xs) (max 0 (s - 1))"
  proof -
    define a where "a = max 0 (s - 1)"
    define b where "b = min (int (length xs)) e"
    have ab: "0 \<le> a" "0 \<le> b" "b \<le> a"
      using assms False by (simp_all add: a_def b_def) linarith
    then have "nat b \<le> nat a" by simp
    then have "min (nat b) (length xs) \<le> min (nat a) (length xs)"
      by (rule min.mono) simp
    with ab show ?thesis
      unfolding a_def [symmetric] b_def [symmetric] slice_index_def by simp
  qed
  then have "py_slice xs (max 0 (s - 1)) (min (int (length xs)) e) = []"
    by (simp add: py_slice_def)
  ultimately show ?thesis by simp
qed

lemma py_slice_beyond:
  assumes "int (length xs) \<le> a"
  shows "py_slice xs a b = []"
  using assms by (simp add: py_slice_def slice_index_def)

section \<open>Snippet extraction\<close>

text \<open>
  C6, as the code has it. For a file that can be read and a line range \<open>[s, e]\<close> whose
  end is not negative,
  \<^verbatim>\<open>get_code_snippet\<close> returns the text of exactly the lines \<open>s\<close> to \<open>e\<close>, counted from 1
  and both included, where a start below 1 counts as 1 and an end beyond the last line
  counts as the last line.
\<close>

theorem snippet_clamped:
  assumes "readlines w p = Inr lines" and "0 \<le> e"
  shows "get_code_snippet w p (JInt s) (JInt e) = Inr (concat (clamped_lines lines s e))"
  using assms by (simp add: get_code_snippet_def py_slice_clamped)

theorem snippet_clamped_witness:
  "readlines sample_world (JStr ''a.py'') = Inr sample_file \<and> (0::int) \<le> 9
   \<and> get_code_snippet sample_world (JStr ''a.py'') (JInt (- 2)) (JInt 9)
       = Inr ''import os\<newline>\<newline>password = 1\<newline>print(password)\<newline>''
   \<and> get_code_snippet sample_world (JStr ''a.py'') (JInt 3) (JInt 4)
       = Inr ''password = 1\<newline>print(password)\<newline>''"
proof -
  have r: "readlines sample_world (JStr ''a.py'') = Inr sample_file"
    by (simp add: sample_world_def)
  have "concat (clamped_lines sample_file (- 2) 9)
      = ''import os\<newline>\<newline>password = 1\<newline>print(password)\<newline>''"
    by (simp add: clamped_lines_def sample_file_def upto.simps)
  moreover have "concat (clamped_lines sample_file 3 4)
      = ''password = 1\<newline>print(password)\<newline>''"
    by (simp add: clamped_lines_def sample_file_def upto.simps)
  ultimately show ?thesis
    using r snippet_clamped [OF r, of 9 "- 2"] snippet_clamped [OF r, of 4 3] by simp
qed

text \<open>
  For a negative end the claim fails: no line is numbered from 1 to -1, and the slice
  counts the end from the last line, so the range \<open>[1, -1]\<close> gives the first three lines
  of the four-line file.
\<close>

theorem snippet_negative_end_counterexample:
  "readlines sample_world (JStr ''a.py'') = Inr sample_file
   \<and> concat (clamped_lines sample_file 1 (- 1)) = []
   \<and> get_code_snippet sample_world (JStr ''a.py'') (JInt 1) (JInt (- 1))
       = Inr ''import os\<newline>\<newline>password = 1\<newline>''"
  by (simp add: sample_world_def sample_file_def get_code_snippet_def py_slice_def
      slice_index_def clamped_lines_def)

text \<open>
  C3, as the code has it. For a file that can be read and a line range that starts beyond
  its last line, \<^verbatim>\<open>get_code_snippet\<close> returns the empty string, and does not raise.
\<close>

theorem snippet_beyond_file:
  assumes "readlines w p = Inr lines" and "int (length lines) < s"
  shows "get_code_snippet w p (JInt s) (JInt e) = Inr []"
proof -
  have "int (length lines) \<le> max 0 (s - 1)" using assms(2) by simp
  then have "py_slice lines (max 0 (s - 1)) (min (int (length lines)) e) = []"
    by (rule py_slice_beyond)
  with assms(1) show ?thesis by (simp add: get_code_snippet_def)
qed

theorem snippet_beyond_file_witness:
  "readlines sample_world (JStr ''a.py'') = Inr sample_file
   \<and> int (length sample_file) < 7
   \<and> get_code_snippet sample_world (JStr ''a.py'') (JInt 7) (JInt 9) = Inr []"
proof -
  have r: "readlines sample_world (JStr ''a.py'') = Inr sample_file"
    by (simp add: sample_world_def)
  have l: "int (length sample_file) < 7" by (simp add: sample_file_def)
  show ?thesis using r l snippet_beyond_file [OF r l, of 9] by simp
qed

text \<open>
  The claim as the specification words it fails: for the four-line file and the range
  \<open>[7, 9]\<close> the result is the empty string, not the content of the file.
\<close>

theorem snippet_beyond_file_counterexample:
  "readlines sample_world (JStr ''a.py'') = Inr sample_file
   \<and> int (length sample_file) < 7
   \<and> get_code_snippet sample_world (JStr ''a.py'') (JInt 7) (JInt 9) \<noteq> Inr (concat sample_file)"
  by (simp add: sample_world_def sample_file_def get_code_snippet_def py_slice_def
      slice_index_def)

text \<open>
  C7, as the code has it. For a path that does not exist (\<^verbatim>\<open>open\<close> raises
  \<^verbatim>\<open>FileNotFoundError\<close>), \<^verbatim>\<open>get_code_snippet\<close> returns the text
  \<^verbatim>\<open>Code snippet for <path> not found.\<close> and does not raise, whatever the line numbers.
\<close>

theorem snippet_not_found:
  assumes "readlines w p = Inl FileNotFoundError"
  shows "get_code_snippet w p s e = Inr (''Code snippet for '' @ py_str w p @ '' not found.'')"
  using assms by (simp add: get_code_snippet_def)

theorem snippet_not_found_witness:
  "readlines sample_world (JStr ''gone.py'') = Inl FileNotFoundError
   \<and> get_code_snippet sample_world (JStr ''gone.py'') (JInt 3) (JInt 4)
       = Inr ''Code snippet for gone.py not found.''"
proof -
  have r: "readlines sample_world (JStr ''gone.py'') = Inl FileNotFoundError"
    by (simp add: sample_world_def)
  show ?thesis using r snippet_not_found [OF r, of "JInt 3" "JInt 4"] by simp
qed

text \<open>
  A file that cannot be opened for another reason is not covered: the exception leaves
  \<^verbatim>\<open>get_code_snippet\<close>.
\<close>

theorem snippet_unreadable_counterexample:
  "readlines locked_world (JStr ''.env'') = Inl PermissionError
   \<and> get_code_snippet locked_world (JStr ''.env'') (JInt 1) (JInt 2) = Inl PermissionError"
  by (simp add: locked_world_def get_code_snippet_def)

section \<open>What the text-generation call returns\<close>





section \<open>The loop\<close>







section \<open>Independence of the comment endpoint\<close>

lemma py_str_github [simp]: "py_str (w\<lparr>github_post := post\<rparr>) v = py_str w v"
  by (cases v) simp_all

lemma call_openai_github [simp]:
  "call_openai (w\<lparr>github_post := post\<rparr>) n system_prompt user_prompt
     = call_openai w n system_prompt user_prompt"
  by (simp add: call_openai_def openai_request_def OPENAI_API_KEY_def)

lemma get_code_snippet_github [simp]:
  "get_code_snippet (w\<lparr>github_post := post\<rparr>) path start_line end_line
     = get_code_snippet w path start_line end_line"
  by (simp add: get_code_snippet_def cong: sum.case_cong error.case_cong)

lemma fix_for_finding_github [simp]:
  "fix_for_finding (w\<lparr>github_post := post\<rparr>) n finding = fix_for_finding w n finding"
  by (simp add: fix_for_finding_def fix_user_prompt_def suggestion_header_def file_lines_def)

lemma fixes_loop_github [simp]:
  "fixes_loop (w\<lparr>github_post := post\<rparr>) n fs ai_fixes = fixes_loop w n fs ai_fixes"
  by (induction fs arbitrary: n ai_fixes) (simp_all cong: sum.case_cong)

lemma get_ai_fixes_github [simp]:
  "get_ai_fixes (w\<lparr>github_post := post\<rparr>) n doc = get_ai_fixes w n doc"
  by (simp add: get_ai_fixes_def cong: json.case_cong if_cong)

lemma print_final_comment_github [simp]:
  "print_final_comment (w\<lparr>github_post := post\<rparr>) final_comment
     = print_final_comment w final_comment"
  by (simp add: print_final_comment_def)

lemma format_final_comment_github [simp]:
  "format_final_comment (w\<lparr>github_post := post\<rparr>) summary fixes
     = format_final_comment w summary fixes"
  by (simp add: format_final_comment_def)

lemma main_steps_github [simp]:
  "config_present (w\<lparr>github_post := post\<rparr>) = config_present w"
  "get_pr_diff (w\<lparr>github_post := post\<rparr>) = get_pr_diff w"
  "load_scanner_results (w\<lparr>github_post := post\<rparr>) path = load_scanner_results w path"
  "get_ai_summary (w\<lparr>github_post := post\<rparr>) diff = get_ai_summary w diff"
  by (simp_all add: config_present_def get_pr_diff_def load_scanner_results_def
      get_ai_summary_def OPENAI_API_KEY_def GITHUB_TOKEN_def REPO_NAME_def PR_NUMBER_def
      BASE_REF_def)

section \<open>The report\<close>

lemma sublist_in_right: "sublist x b \<Longrightarrow> sublist x (a @ b)"
  by (metis append_assoc sublist_def)

lemma sublist_in_left: "sublist x a \<Longrightarrow> sublist x (a @ b)"
  by (metis append_assoc sublist_def)

lemma anomalies_marker: "sublist ''Anomalies Detected'' anomalies_section"
  unfolding anomalies_section_def sublist_def
  by (intro exI [of _ "''### '' @ [CHR 0xF0, CHR 0x9F, CHR 0x9A, CHR 0xA8] @ '' ''"]
      exI [of _ "''\<newline>\<newline>I found the following issues that should be addressed:\<newline>\<newline>''"])
    simp

lemma no_anomalies_marker: "sublist ''No Anomalies Found'' no_anomalies_section"
  unfolding no_anomalies_section_def sublist_def
  by (intro exI [of _ "''### '' @ [CHR 0xE2, CHR 0x9C, CHR 0x85] @ '' ''"]
      exI [of _ "''\<newline>\<newline>My automated scan found no critical issues. Great job!''"])
    simp

lemma report_shape:
  "format_final_comment w summary fixes
     = report_header @ py_str w summary @ ''\<newline>\<newline>---\<newline>\<newline>''
       @ (if fixes \<noteq> [] then anomalies_section @ join ''\<newline>\<newline>---\<newline>\<newline>'' fixes
          else no_anomalies_section)"
  by (simp add: format_final_comment_def)


section \<open>Runs of main\<close>






lemmas config_defs = config_present_def OPENAI_API_KEY_def GITHUB_TOKEN_def REPO_NAME_def
  PR_NUMBER_def BASE_REF_def

lemmas world_defs = sample_world_def locked_world_def malformed_world_def
  no_results_world_def findings_world_def legacy_world_def garbled_world_def
  timeout_world_def rejected_world_def unconfigured_world_def failed_diff_world_def
  empty_diff_world_def one_record_world_def ascii_stdout_world_def

lemmas run_defs = main_def get_pr_diff_def load_scanner_results_def get_ai_summary_def
  get_ai_fixes_def fix_for_finding_def finding_fields_def get_code_snippet_def
  call_openai_def openai_request_def response_content_def raise_for_status_def
  py_slice_def slice_index_def Let_def SCANNER_RESULTS_FILE_def print_final_comment_def

text \<open>
  When standard output cannot encode the report (its header holds characters outside
  ASCII), \<^verbatim>\<open>print(final_comment)\<close> raises and nothing is posted.
\<close>

lemma report_not_printable:
  "main ascii_stdout_world = Uncaught UnicodeEncodeError"
  by (simp add: run_defs config_defs world_defs chat_body_def format_final_comment_def
      report_header_def)



section \<open>Findings documents without findings\<close>




section \<open>One suggestion per finding\<close>




section \<open>Failures of the text-generation call\<close>




section \<open>Findings documents that raise\<close>

text \<open>
  \<^verbatim>\<open>get_ai_fixes\<close> takes the length of \<^verbatim>\<open>results\<close> before it checks that it is a list, and
  calls \<^verbatim>\<open>get\<close> on the document whatever it is.
\<close>

lemma results_without_length:
  "get_ai_fixes w n (JObj [(''results'', JNull)]) = Inl TypeError"
  "get_ai_fixes w n (JObj [(''results'', JInt 5)]) = Inl TypeError"
  by (simp_all add: get_ai_fixes_def)

lemma document_not_an_object:
  "get_ai_fixes w n (JList [JInt 1]) = Inl AttributeError"
  by (simp add: get_ai_fixes_def)

section \<open>Records without a required field\<close>

text \<open>
  C9. There are results files with one record that lacks a required field for which
  \<^verbatim>\<open>get_ai_fixes\<close> raises \<^verbatim>\<open>KeyError\<close>; nothing catches it, so \<^verbatim>\<open>main\<close> ends before a
  report is formatted or posted. This holds for each of the four fields.
\<close>

theorem missing_field_aborts:
  "get_ai_fixes (one_record_world without_path) 1 (JObj [(''results'', JList [without_path])])
     = Inl (KeyError ''path'')
   \<and> main (one_record_world without_path) = Uncaught (KeyError ''path'')
   \<and> main (one_record_world without_start_line) = Uncaught (KeyError ''line'')
   \<and> main (one_record_world without_end_line) = Uncaught (KeyError ''end'')
   \<and> main (one_record_world without_message) = Uncaught (KeyError ''message'')
   \<and> exit_code (main (one_record_world without_path)) = 1"
proof -
  have s: "get_ai_summary (one_record_world r) ''+print('hi')'' = Inr (JStr ''ok'')"
    for r
    by (simp add: run_defs config_defs world_defs chat_body_def)
  have m: "main (one_record_world r)
      = (case fix_for_finding (one_record_world r) 1 r of
           Inl e \<Rightarrow> Uncaught e
         | Inr x \<Rightarrow> Completed (format_final_comment (one_record_world r) (JStr ''ok'') [x])
                      (post_to_pr (one_record_world r)
                         (format_final_comment (one_record_world r) (JStr ''ok'') [x])))"
    for r
    using s [of r]
    by (simp add: main_def get_pr_diff_def load_scanner_results_def SCANNER_RESULTS_FILE_def
        get_ai_fixes_def print_final_comment_def config_defs world_defs Let_def
        split: sum.splits)
  have "fix_for_finding w 1 without_path = Inl (KeyError ''path'')"
    "fix_for_finding w 1 without_start_line = Inl (KeyError ''line'')"
    "fix_for_finding w 1 without_end_line = Inl (KeyError ''end'')"
    "fix_for_finding w 1 without_message = Inl (KeyError ''message'')" for w
    by (simp_all add: fix_for_finding_def finding_fields_def without_path_def
        without_start_line_def without_end_line_def without_message_def)
  then show ?thesis by (simp add: m get_ai_fixes_def)
qed

theorem missing_field_aborts_witness:
  "main (one_record_world without_path) = Uncaught (KeyError ''path'')
   \<and> exit_code (main (one_record_world without_path)) = 1"
  using missing_field_aborts by simp

section \<open>An empty diff\<close>



section \<open>Joined suggestions\<close>

lemma sublist_join_member: "x \<in> set xs \<Longrightarrow> sublist x (join sep xs)"
proof (induction sep xs rule: join.induct)
  case (1 sep)
  then show ?case by simp
next
  case (2 sep y)
  then show ?case by simp
next
  case (3 sep y z zs)
  show ?case
  proof (cases "x = y")
    case True
    then show ?thesis by simp
  next
    case False
    with 3 have "sublist x (join sep (z # zs))" by simp
    then show ?thesis by (simp add: sublist_in_right)
  qed
qed

lemma prefix_join_hd: "xs \<noteq> [] \<Longrightarrow> prefix (hd xs) (join sep xs)"
  by (induction sep xs rule: join.induct) simp_all

lemma sublist_join_adjacent:
  "Suc i < length xs \<Longrightarrow> sublist (xs ! i @ sep @ xs ! Suc i) (join sep xs)"
proof (induction sep xs arbitrary: i rule: join.induct)
  case (1 sep)
  then show ?case by simp
next
  case (2 sep y)
  then show ?case by simp
next
  case (3 sep y z zs)
  show ?case
  proof (cases i)
    case 0
    have "prefix z (join sep (z # zs))" using prefix_join_hd [of "z # zs" sep] by simp
    then obtain r where "join sep (z # zs) = z @ r" by (auto simp: prefix_def)
    then have "join sep (y # z # zs) = (y @ sep @ z) @ r" by simp
    then have "sublist (y @ sep @ z) (join sep (y # z # zs))"
      by (metis sublist_append_rightI)
    with 0 show ?thesis by simp
  next
    case (Suc j)
    with 3 have "sublist ((z # zs) ! j @ sep @ (z # zs) ! Suc j) (join sep (z # zs))"
      by simp
    with Suc show ?thesis by (simp add: sublist_in_right)
  qed
qed

lemma join_closed_form:
  "xs \<noteq> [] \<Longrightarrow> join sep xs = hd xs @ concat (map (\<lambda>x. sep @ x) (tl xs))"
  by (induction sep xs rule: join.induct) simp_all

lemma markers_apart:
  "\<not> sublist ''No Anomalies Found'' anomalies_section"
  "\<not> sublist ''Anomalies Detected'' no_anomalies_section"
  "\<not> sublist ''Anomalies Detected'' report_header"
  "\<not> sublist ''No Anomalies Found'' report_header"
  unfolding anomalies_section_def no_anomalies_section_def report_header_def
  by code_simp+

text \<open>
  C8. The report is a function of the summary and the suggestions, fixed by a template.
  It opens with the header, the summary as it is, and a separator. With suggestions,
  what follows is the \<^verbatim>\<open>Anomalies Detected\<close> section and then the suggestions in order,
  the first as it is and each later one after a blank line, \<^verbatim>\<open>---\<close> and a blank line,
  and nothing else. Without suggestions, what follows is the fixed \<^verbatim>\<open>No Anomalies Found\<close>
  message and nothing else. Neither section holds the other's title, and the header
  holds none.
\<close>

theorem report_template:
  "let report = format_final_comment w summary fixes;
       lead = report_header @ py_str w summary @ ''\<newline>\<newline>---\<newline>\<newline>''
   in (fixes \<noteq> [] \<longrightarrow>
         report = lead @ anomalies_section @ hd fixes
                    @ concat (map (\<lambda>f. ''\<newline>\<newline>---\<newline>\<newline>'' @ f) (tl fixes))
         \<and> (\<forall>f \<in> set fixes. sublist f report)
         \<and> (\<forall>i. Suc i < length fixes \<longrightarrow>
               sublist (fixes ! i @ ''\<newline>\<newline>---\<newline>\<newline>'' @ fixes ! Suc i) report))
      \<and> (fixes = [] \<longrightarrow> report = lead @ no_anomalies_section)
      \<and> sublist (py_str w summary) report
      \<and> sublist ''Anomalies Detected'' anomalies_section
      \<and> \<not> sublist ''No Anomalies Found'' anomalies_section
      \<and> sublist ''No Anomalies Found'' no_anomalies_section
      \<and> \<not> sublist ''Anomalies Detected'' no_anomalies_section
      \<and> \<not> sublist ''Anomalies Detected'' report_header
      \<and> \<not> sublist ''No Anomalies Found'' report_header"
proof -
  define report where "report = format_final_comment w summary fixes"
  define lead where "lead = report_header @ py_str w summary @ ''\<newline>\<newline>---\<newline>\<newline>''"
  have summary_in: "sublist (py_str w summary) report"
    unfolding report_def report_shape by (rule sublist_in_right) (rule sublist_append_rightI)
  have with_fixes: "report = lead @ anomalies_section @ hd fixes
                    @ concat (map (\<lambda>f. ''\<newline>\<newline>---\<newline>\<newline>'' @ f) (tl fixes))
        \<and> (\<forall>f \<in> set fixes. sublist f report)
        \<and> (\<forall>i. Suc i < length fixes \<longrightarrow>
              sublist (fixes ! i @ ''\<newline>\<newline>---\<newline>\<newline>'' @ fixes ! Suc i) report)"
    if ne: "fixes \<noteq> []"
  proof -
    have shape: "report = (lead @ anomalies_section) @ join ''\<newline>\<newline>---\<newline>\<newline>'' fixes"
      unfolding report_def lead_def report_shape using ne by simp
    have exact: "report = lead @ anomalies_section @ hd fixes
                    @ concat (map (\<lambda>f. ''\<newline>\<newline>---\<newline>\<newline>'' @ f) (tl fixes))"
      unfolding shape join_closed_form [OF ne] by (simp only: append_assoc)
    have inside: "sublist x report" if "sublist x (join ''\<newline>\<newline>---\<newline>\<newline>'' fixes)" for x
      unfolding shape using that by (rule sublist_in_right)
    have members: "\<forall>f \<in> set fixes. sublist f report"
      by (intro ballI inside sublist_join_member)
    have adjacent: "\<forall>i. Suc i < length fixes \<longrightarrow>
        sublist (fixes ! i @ ''\<newline>\<newline>---\<newline>\<newline>'' @ fixes ! Suc i) report"
      by (intro allI impI inside sublist_join_adjacent)
    from exact members adjacent show ?thesis by blast
  qed
  have without_fixes: "report = lead @ no_anomalies_section" if "fixes = []"
    unfolding report_def lead_def report_shape using that by simp
  from summary_in with_fixes without_fixes anomalies_marker no_anomalies_marker markers_apart
  show ?thesis
    unfolding report_def lead_def Let_def by blast
qed

theorem report_template_witness:
  "[''A'', ''B''] \<noteq> ([] :: string list)
   \<and> format_final_comment sample_world (JStr ''Adds a greeting.'') [''A'', ''B'']
       = report_header @ ''Adds a greeting.'' @ ''\<newline>\<newline>---\<newline>\<newline>'' @ anomalies_section
           @ ''A\<newline>\<newline>---\<newline>\<newline>B''
   \<and> format_final_comment sample_world (JStr ''Adds a greeting.'') []
       = report_header @ ''Adds a greeting.'' @ ''\<newline>\<newline>---\<newline>\<newline>'' @ no_anomalies_section"
proof -
  have ne: "[''A'', ''B''] \<noteq> ([] :: string list)" by simp
  have "format_final_comment sample_world (JStr ''Adds a greeting.'') [''A'', ''B'']
       = report_header @ ''Adds a greeting.'' @ ''\<newline>\<newline>---\<newline>\<newline>'' @ anomalies_section
           @ ''A\<newline>\<newline>---\<newline>\<newline>B''"
    using report_template [of sample_world "JStr ''Adds a greeting.''" "[''A'', ''B'']"] ne
    by (simp add: Let_def)
  moreover have "format_final_comment sample_world (JStr ''Adds a greeting.'') []
       = report_header @ ''Adds a greeting.'' @ ''\<newline>\<newline>---\<newline>\<newline>'' @ no_anomalies_section"
    using report_template [of sample_world "JStr ''Adds a greeting.''" "[]"]
    by (simp add: Let_def)
  ultimately show ?thesis using ne by blast
qed

end
